theory Spec2Isabelle
  imports Main "HOL-Library.Multiset" "HOL-Library.Sublist"
begin

section \<open>Video downloader backend (src/Node.js)\<close>

text \<open>
  The server is an Express application with four POST routes and one GET route. This
  theory embeds the route handlers of \<^verbatim>\<open>src/Node.js\<close> as HOL functions.

  Conventions of the embedding:
  \<^item> JavaScript strings are \<open>string\<close> (lists of 8-bit characters); byte buffers are
    \<open>string\<close> as well.
  \<^item> JavaScript numbers that the handlers compute with are the results of
    \<open>parseInt\<close> on digit runs and their differences: whole doubles, kept as the
    integers they equal, with the rounding of a double written out.
  \<^item> The third-party libraries (\<open>@distube/ytdl-core\<close>, \<open>instagram-url-direct\<close>, the
    global \<open>fetch\<close>) are not part of the repository. They are parameters of the model,
    collected in the record \<open>env\<close>; a call that may throw returns a sum whose \<open>Inl\<close>
    is the thrown error.
  \<^item> The values that the libraries return have the types that the libraries
    document: a format's \<open>quality\<close> is a string, \<open>url_list\<close> is an array of strings.
  \<^item> The Express response object is a record that the handlers update; \<open>throw\<close>,
    \<open>try\<close>/\<open>catch\<close> and early \<open>return\<close> are explicit.
\<close>

subsection \<open>JavaScript values\<close>

datatype js_value =
    Undefined
  | Null
  | Bool bool
  | Num int
  | Str string
  | Arr "js_value list"
  | Obj "(string \<times> js_value) list"

text \<open>
  The values of a parsed JSON body, and \<open>undefined\<close> for a missing property. The
  handlers test such a value for truthiness, call \<open>includes\<close> on it or pass it on to a
  library; a number is kept as an integer. \<open>!v\<close> is \<open>\<not> truthy v\<close>.
\<close>

fun truthy :: "js_value \<Rightarrow> bool" where
  "truthy Undefined = False"
| "truthy Null = False"
| "truthy (Bool b) = b"
| "truthy (Num n) = (n \<noteq> 0)"
| "truthy (Str s) = (s \<noteq> [])"
| "truthy (Arr xs) = True"
| "truthy (Obj fs) = True"

text \<open>\<open>a || b\<close> on values.\<close>

definition js_or :: "js_value \<Rightarrow> js_value \<Rightarrow> js_value" where
  "js_or a b = (if truthy a then a else b)"

text \<open>A thrown value; \<open>message\<close> is what \<open>error.message\<close> reads (\<open>Undefined\<close> when the
  thrown value has no such property).\<close>

datatype js_error = JsError (message: js_value)

subsection \<open>Strings: \<open>includes\<close>, the pattern \<open>/(\d+)p/\<close>, \<open>parseInt\<close>, \<open>/[^\w\s]/gi\<close>\<close>

fun startsWith :: "string \<Rightarrow> string \<Rightarrow> bool" where
  "startsWith s [] = True"
| "startsWith [] (p # ps) = False"
| "startsWith (c # cs) (p # ps) = (c = p \<and> startsWith cs ps)"

text \<open>\<open>String.prototype.includes\<close>: the pattern occurs at some position.\<close>

fun js_includes :: "string \<Rightarrow> string \<Rightarrow> bool" where
  "js_includes [] p = startsWith [] p"
| "js_includes (c # cs) p = (startsWith (c # cs) p \<or> js_includes cs p)"

text \<open>\<open>\d\<close> is an ASCII digit.\<close>

definition is_digit :: "char \<Rightarrow> bool" where
  "is_digit c = ((48::nat) \<le> of_char c \<and> of_char c \<le> (57::nat))"

text \<open>
  One attempt of \<open>/(\d+)p/\<close> at the start of the string: the longest run of digits,
  non-empty, followed by \<open>p\<close>. (A shorter run is followed by a digit, so backtracking
  inside the run never succeeds.) The result is the captured group.
\<close>

definition match_here :: "string \<Rightarrow> string option" where
  "match_here s =
     (let ds = takeWhile is_digit s; rest = dropWhile is_digit s
      in if ds \<noteq> [] \<and> startsWith rest ''p'' then Some ds else None)"

text \<open>\<open>s.match(/(\d+)p/)\<close>: the leftmost position where an attempt succeeds; \<open>None\<close> is
  the \<open>null\<close> of a failed match, \<open>Some ds\<close> carries \<open>match[1]\<close>.\<close>

fun match_resolution :: "string \<Rightarrow> string option" where
  "match_resolution [] = match_here []"
| "match_resolution (c # cs) =
     (case match_here (c # cs) of
        Some ds \<Rightarrow> Some ds
      | None \<Rightarrow> match_resolution cs)"

text \<open>
  JavaScript numbers are IEEE doubles. The numbers of the quality sort are whole, so a
  number is kept as the integer it equals, or as one of the two infinities or NaN.
\<close>

datatype js_number = Finite int | PosInfinity | NegInfinity | NaN

function bit_length :: "int \<Rightarrow> nat" where
  "bit_length n = (if n \<le> 0 then 0 else Suc (bit_length (n div 2)))"
  by pat_completeness auto
termination
  by (relation "measure nat") auto

declare bit_length.simps [simp del]

text \<open>
  The double nearest to a non-negative integer, with ties to the even significand: below
  \<open>2 ^ 53\<close> the number itself, above it the leading 53 bits with the rest rounded.
\<close>

definition nearest_double :: "int \<Rightarrow> int" where
  "nearest_double n =
     (if n < 2 ^ 53 then n
      else
        let e = bit_length n - 53; q = n div 2 ^ e; r = n mod 2 ^ e; h = 2 ^ (e - 1)
        in (if h < r \<or> (r = h \<and> odd q) then q + 1 else q) * 2 ^ e)"

text \<open>The number value of an integer: the nearest double, an infinity from
  \<open>2 ^ 1024\<close> on.\<close>

definition number_of_int :: "int \<Rightarrow> js_number" where
  "number_of_int i =
     (let m = nearest_double \<bar>i\<bar>
      in if 2 ^ 1024 \<le> m then (if 0 \<le> i then PosInfinity else NegInfinity)
         else Finite (if 0 \<le> i then m else - m))"

text \<open>\<open>a - b\<close> on numbers.\<close>

fun js_sub :: "js_number \<Rightarrow> js_number \<Rightarrow> js_number" where
  "js_sub (Finite x) (Finite y) = number_of_int (x - y)"
| "js_sub NaN b = NaN"
| "js_sub a NaN = NaN"
| "js_sub PosInfinity PosInfinity = NaN"
| "js_sub NegInfinity NegInfinity = NaN"
| "js_sub PosInfinity b = PosInfinity"
| "js_sub NegInfinity b = NegInfinity"
| "js_sub (Finite x) PosInfinity = NegInfinity"
| "js_sub (Finite x) NegInfinity = PosInfinity"

text \<open>\<open>v > 0\<close> and \<open>a <= b\<close> on numbers; a comparison with NaN is false.\<close>

fun js_positive :: "js_number \<Rightarrow> bool" where
  "js_positive (Finite x) = (0 < x)"
| "js_positive PosInfinity = True"
| "js_positive NegInfinity = False"
| "js_positive NaN = False"


text \<open>\<open>parseInt\<close> on a string of decimal digits, which is all that \<open>match[1]\<close> can be:
  the number value of the integer that the digits write, as V8, the engine of Node,
  computes it (correctly rounded for a run of any length).\<close>

definition digit_val :: "char \<Rightarrow> int" where
  "digit_val c = int (of_char c) - 48"

definition decimal_value :: "string \<Rightarrow> int" where
  "decimal_value ds = foldl (\<lambda>n c. 10 * n + digit_val c) 0 ds"

definition parseInt :: "string \<Rightarrow> js_number" where
  "parseInt ds = number_of_int (decimal_value ds)"

text \<open>\<open>\w\<close> is \<open>[A-Za-z0-9_]\<close>; \<open>\s\<close>, within 8-bit characters, is TAB, LF, VT, FF, CR,
  SPACE and NBSP. The flag \<open>i\<close> adds nothing to a class that holds both cases.\<close>

definition is_word :: "char \<Rightarrow> bool" where
  "is_word c =
     (let n = (of_char c :: nat)
      in (65 \<le> n \<and> n \<le> 90) \<or> (97 \<le> n \<and> n \<le> 122) \<or> (48 \<le> n \<and> n \<le> 57) \<or> n = 95)"

definition is_space :: "char \<Rightarrow> bool" where
  "is_space c =
     (let n = (of_char c :: nat)
      in (9 \<le> n \<and> n \<le> 13) \<or> n = 32 \<or> n = 160)"

text \<open>The class \<open>[^\w\s]\<close>, and \<open>title.replace(/[^\w\s]/gi, '')\<close>: every character of
  the class is replaced by the empty string.\<close>

definition special_char :: "char \<Rightarrow> bool" where
  "special_char c = (\<not> (is_word c \<or> is_space c))"

definition sanitize_title :: "string \<Rightarrow> string" where
  "sanitize_title t = concat (map (\<lambda>c. if special_char c then [] else [c]) t)"

subsection \<open>Arrays: \<open>findIndex\<close>, \<open>filter\<close> with index, \<open>sort\<close> with a comparator\<close>

text \<open>\<open>Array.prototype.findIndex\<close>: the first index whose element satisfies the
  predicate, \<open>-1\<close> when there is none.\<close>

fun findIndex :: "('a \<Rightarrow> bool) \<Rightarrow> 'a list \<Rightarrow> int" where
  "findIndex P [] = -1"
| "findIndex P (x # xs) =
     (if P x then 0 else (let i = findIndex P xs in if i = -1 then -1 else i + 1))"

text \<open>\<open>Array.prototype.filter\<close> with the callback \<open>(element, index, self)\<close>.\<close>

definition filter_indexed :: "('a \<Rightarrow> nat \<Rightarrow> 'a list \<Rightarrow> bool) \<Rightarrow> 'a list \<Rightarrow> 'a list" where
  "filter_indexed f self =
     map snd (filter (\<lambda>(i, x). f x i self) (enumerate 0 self))"

text \<open>
  \<open>Array.prototype.sort\<close> with a comparator. The sort of ECMAScript 2019 is stable, and
  for a consistent comparator its result is the stable ordering; it is embedded as an
  insertion sort that puts an element before the first one it does not follow. An
  element follows another when the comparator's value is positive; a NaN from the
  comparator counts as zero.
\<close>

fun insert_cmp :: "('a \<Rightarrow> 'a \<Rightarrow> js_number) \<Rightarrow> 'a \<Rightarrow> 'a list \<Rightarrow> 'a list" where
  "insert_cmp cmp x [] = [x]"
| "insert_cmp cmp x (y # ys) =
     (if js_positive (cmp x y) then y # insert_cmp cmp x ys else x # y # ys)"

definition sort_cmp :: "('a \<Rightarrow> 'a \<Rightarrow> js_number) \<Rightarrow> 'a list \<Rightarrow> 'a list" where
  "sort_cmp cmp xs = foldr (insert_cmp cmp) xs []"

subsection \<open>Data of the extractor libraries\<close>

text \<open>A format of \<open>info.formats\<close>, with the fields the handler reads. \<open>qualityLabel\<close> and
  \<open>contentLength\<close> are \<open>None\<close> when absent or \<open>null\<close>.\<close>

record yt_format =
  itag :: int
  qualityLabel :: "string option"
  quality :: string
  container :: string
  contentLength :: "string option"
  hasAudio :: bool
  hasVideo :: bool

text \<open>\<open>info.videoDetails\<close>: \<open>thumbnails\<close> holds the \<open>url\<close> of each thumbnail,
  \<open>author\<close> the \<open>author.name\<close>.\<close>

record video_info =
  formats :: "yt_format list"
  title :: string
  thumbnails :: "string list"
  lengthSeconds :: string
  author :: string

text \<open>The readable stream returned by \<open>ytdl(url, options)\<close>: the chunks it emits as
  \<open>data\<close>, then \<open>end\<close> (\<open>failure = None\<close>) or \<open>error\<close>.\<close>

record yt_stream =
  chunks :: "string list"
  failure :: "js_error option"

text \<open>The result of \<open>instagramGetUrl\<close>: \<open>url_list\<close> is \<open>None\<close> when the property is
  absent or falsy, otherwise the array of stream URLs.\<close>

record ig_result =
  url_list :: "string list option"
  thumbnail :: js_value

text \<open>The \<open>Response\<close> of \<open>fetch\<close>: \<open>ok\<close>, and what \<open>arrayBuffer()\<close> resolves to or
  rejects with.\<close>

record fetch_response =
  ok :: bool
  arrayBuffer :: "js_error + string"

text \<open>
  The world outside the repository. \<open>toFixedMB\<close> stands for
  \<open>(parseInt(contentLength) / (1024 * 1024)).toFixed(2)\<close>, which is floating point
  formatting.
\<close>

record env =
  validateURL :: "js_value \<Rightarrow> bool"
  getInfo :: "js_value \<Rightarrow> js_error + video_info"
  filterFormats :: "yt_format list \<Rightarrow> yt_format list"
  toFixedMB :: "string \<Rightarrow> string"
  ytdl :: "js_value \<Rightarrow> js_value \<Rightarrow> js_error + yt_stream"
  instagramGetUrl :: "js_value \<Rightarrow> js_error + ig_result option"
  fetch :: "js_value \<Rightarrow> js_error + fetch_response"

subsection \<open>Quality options of the YouTube info route\<close>

text \<open>An element of \<open>qualities\<close> (Node.js, lines 31 to 40).\<close>

record quality_option =
  q_itag :: int
  q_quality :: string
  q_format :: string
  q_size :: string
  q_hasAudio :: bool
  q_hasVideo :: bool

text \<open>\<open>format.qualityLabel || format.quality\<close>: an empty label is falsy.\<close>

definition label_of :: "yt_format \<Rightarrow> string" where
  "label_of f =
     (case qualityLabel f of
        None \<Rightarrow> quality f
      | Some l \<Rightarrow> if l \<noteq> [] then l else quality f)"

definition size_of :: "env \<Rightarrow> yt_format \<Rightarrow> string" where
  "size_of e f =
     (case contentLength f of
        None \<Rightarrow> ''Unknown''
      | Some n \<Rightarrow> if n \<noteq> [] then toFixedMB e n @ '' MB'' else ''Unknown'')"

definition to_quality :: "env \<Rightarrow> yt_format \<Rightarrow> quality_option" where
  "to_quality e f =
     \<lparr> q_itag = itag f, q_quality = label_of f, q_format = container f,
       q_size = size_of e f, q_hasAudio = hasAudio f, q_hasVideo = hasVideo f \<rparr>"

text \<open>Lines 43 to 45: an option stays when its index is the first index of its label.\<close>

definition uniqueQualities :: "quality_option list \<Rightarrow> quality_option list" where
  "uniqueQualities qualities =
     filter_indexed
       (\<lambda>quality index self. int index = findIndex (\<lambda>q. q_quality q = q_quality quality) self)
       qualities"

text \<open>Lines 54 to 57.\<close>

definition getResolution :: "quality_option \<Rightarrow> js_number" where
  "getResolution q =
     (case match_resolution (q_quality q) of
        Some ds \<Rightarrow> parseInt ds
      | None \<Rightarrow> Finite 0)"

text \<open>Lines 53 to 59: the comparator and the sort.\<close>

definition compareQualities :: "quality_option \<Rightarrow> quality_option \<Rightarrow> js_number" where
  "compareQualities a b = js_sub (getResolution b) (getResolution a)"

definition sortQualities :: "quality_option list \<Rightarrow> quality_option list" where
  "sortQualities qs = sort_cmp compareQualities qs"

subsection \<open>The Express response and the effects of a handler\<close>

text \<open>What has been written to the response: the JSON text of \<open>res.json\<close>, a chunk
  written by a piped stream, or the buffer of \<open>res.send\<close>.\<close>

datatype body_part = Json js_value | Chunk string | Buffer string

text \<open>
  The response object. \<open>headers\<close> holds the headers that the handlers set with
  \<open>res.header\<close>; the content headers that Express adds by itself when it sends a body
  are not tracked. \<open>headersSent\<close> is \<open>res.headersSent\<close>.
\<close>

record response =
  statusCode :: nat
  headers :: "(string \<times> string) list"
  headersSent :: bool
  body :: "body_part list"
  ended :: bool

definition new_response :: response where
  "new_response =
     \<lparr> statusCode = 200, headers = [], headersSent = False, body = [], ended = False \<rparr>"

text \<open>The calls that leave the process.\<close>

datatype ext_call =
    GetInfo js_value
  | Ytdl js_value js_value
  | InstagramGetUrl js_value
  | Fetch js_value

record world =
  res :: response
  calls :: "ext_call list"

text \<open>A statement or expression: it runs in a world, returns a value or throws, and
  leaves a world. (\<open>console.error\<close> writes to the log only and is left out.)\<close>

type_synonym 'a action = "world \<Rightarrow> (js_error + 'a) \<times> world"

definition js_return :: "'a \<Rightarrow> 'a action" where
  "js_return x = (\<lambda>w. (Inr x, w))"

definition js_throw :: "js_error \<Rightarrow> 'a action" where
  "js_throw e = (\<lambda>w. (Inl e, w))"

definition js_then :: "'a action \<Rightarrow> ('a \<Rightarrow> 'b action) \<Rightarrow> 'b action" where
  "js_then m f =
     (\<lambda>w. case m w of
             (Inl e, w') \<Rightarrow> (Inl e, w')
           | (Inr x, w') \<Rightarrow> f x w')"

definition try_catch :: "'a action \<Rightarrow> (js_error \<Rightarrow> 'a action) \<Rightarrow> 'a action" where
  "try_catch m h =
     (\<lambda>w. case m w of
             (Inl e, w') \<Rightarrow> h e w'
           | (Inr x, w') \<Rightarrow> (Inr x, w'))"

text \<open>\<open>JSON.stringify\<close> drops the properties whose value is \<open>undefined\<close> and writes
  \<open>null\<close> for such an array element.\<close>

fun json_of :: "js_value \<Rightarrow> js_value" where
  "json_of (Arr xs) = Arr (map (\<lambda>x. if x = Undefined then Null else json_of x) xs)"
| "json_of (Obj fs) =
     Obj (map (\<lambda>kv. (fst kv, json_of (snd kv))) (filter (\<lambda>kv. snd kv \<noteq> Undefined) fs))"
| "json_of v = v"

text \<open>Node refuses to change the head of a response that has been sent, and refuses a
  header value with a control character other than TAB.\<close>

definition ERR_HTTP_HEADERS_SENT :: js_error where
  "ERR_HTTP_HEADERS_SENT = JsError (Str ''Cannot set headers after they are sent to the client'')"

definition ERR_INVALID_CHAR :: js_error where
  "ERR_INVALID_CHAR = JsError (Str ''Invalid character in header content'')"

definition valid_header_char :: "char \<Rightarrow> bool" where
  "valid_header_char c =
     (let n = (of_char c :: nat) in n = 9 \<or> (32 \<le> n \<and> n \<le> 126) \<or> 128 \<le> n)"

definition set_header :: "string \<Rightarrow> string \<Rightarrow> (string \<times> string) list \<Rightarrow> (string \<times> string) list" where
  "set_header k v hs = filter (\<lambda>h. fst h \<noteq> k) hs @ [(k, v)]"

definition res_status :: "nat \<Rightarrow> unit action" where
  "res_status n = (\<lambda>w. (Inr (), w\<lparr>res := (res w)\<lparr>statusCode := n\<rparr>\<rparr>))"

definition res_header :: "string \<Rightarrow> string \<Rightarrow> unit action" where
  "res_header k v =
     (\<lambda>w. if headersSent (res w) then (Inl ERR_HTTP_HEADERS_SENT, w)
          else if \<not> list_all valid_header_char v then (Inl ERR_INVALID_CHAR, w)
          else (Inr (), w\<lparr>res := (res w)\<lparr>headers := set_header k v (headers (res w))\<rparr>\<rparr>))"

definition res_json :: "js_value \<Rightarrow> unit action" where
  "res_json obj =
     (\<lambda>w. if headersSent (res w) then (Inl ERR_HTTP_HEADERS_SENT, w)
          else (Inr (), w\<lparr>res := (res w)\<lparr>headersSent := True,
                                          body := body (res w) @ [Json (json_of obj)],
                                          ended := True\<rparr>\<rparr>))"

definition res_send :: "string \<Rightarrow> unit action" where
  "res_send buf =
     (\<lambda>w. if headersSent (res w) then (Inl ERR_HTTP_HEADERS_SENT, w)
          else (Inr (), w\<lparr>res := (res w)\<lparr>headersSent := True,
                                          body := body (res w) @ [Buffer buf],
                                          ended := True\<rparr>\<rparr>))"

text \<open>What \<open>videoStream.pipe(res)\<close> does to the response: each chunk is written (the
  first write sends the head), and the end of the stream ends the response.\<close>

definition res_write :: "string \<Rightarrow> unit action" where
  "res_write c =
     (\<lambda>w. (Inr (), w\<lparr>res := (res w)\<lparr>headersSent := True,
                                   body := body (res w) @ [Chunk c]\<rparr>\<rparr>))"

definition res_end :: "unit action" where
  "res_end = (\<lambda>w. (Inr (), w\<lparr>res := (res w)\<lparr>headersSent := True, ended := True\<rparr>\<rparr>))"

fun write_chunks :: "string list \<Rightarrow> unit action" where
  "write_chunks [] = js_return ()"
| "write_chunks (c # cs) = js_then (res_write c) (\<lambda>_. write_chunks cs)"

text \<open>Calls of the libraries, recorded in \<open>calls\<close>.\<close>

definition call_getInfo :: "env \<Rightarrow> js_value \<Rightarrow> video_info action" where
  "call_getInfo e u = (\<lambda>w. (getInfo e u, w\<lparr>calls := calls w @ [GetInfo u]\<rparr>))"

definition call_ytdl :: "env \<Rightarrow> js_value \<Rightarrow> js_value \<Rightarrow> yt_stream action" where
  "call_ytdl e u q = (\<lambda>w. (ytdl e u q, w\<lparr>calls := calls w @ [Ytdl u q]\<rparr>))"

definition call_instagramGetUrl :: "env \<Rightarrow> js_value \<Rightarrow> ig_result option action" where
  "call_instagramGetUrl e u =
     (\<lambda>w. (instagramGetUrl e u, w\<lparr>calls := calls w @ [InstagramGetUrl u]\<rparr>))"

definition call_fetch :: "env \<Rightarrow> js_value \<Rightarrow> fetch_response action" where
  "call_fetch e u = (\<lambda>w. (fetch e u, w\<lparr>calls := calls w @ [Fetch u]\<rparr>))"

text \<open>The body of a request after \<open>express.json()\<close>: the properties that the handlers
  destructure, \<open>Undefined\<close> when a property is missing.\<close>

record req_body =
  body_url :: js_value
  body_itag :: js_value
  body_qualityUrl :: js_value

subsection \<open>POST /api/youtube/info (lines 17 to 69)\<close>

definition quality_json :: "quality_option \<Rightarrow> js_value" where
  "quality_json q =
     Obj [(''itag'', Num (q_itag q)), (''quality'', Str (q_quality q)),
          (''format'', Str (q_format q)), (''size'', Str (q_size q)),
          (''hasAudio'', Bool (q_hasAudio q)), (''hasVideo'', Bool (q_hasVideo q))]"

text \<open>\<open>thumbnails[thumbnails.length - 1].url\<close>: on an empty array the element is
  \<open>undefined\<close> and reading \<open>url\<close> throws a TypeError.\<close>

definition last_thumbnail :: "string list \<Rightarrow> string action" where
  "last_thumbnail ts =
     (if ts = [] then js_throw (JsError (Str ''Cannot read properties of undefined''))
      else js_return (ts ! (length ts - 1)))"

definition yt_info_catch :: "js_error \<Rightarrow> unit action" where
  "yt_info_catch error =
     js_then (res_status 500) (\<lambda>_.
       res_json (Obj [(''error'', Str ''Failed to fetch video information''),
                      (''details'', message error)]))"

definition yt_info :: "env \<Rightarrow> req_body \<Rightarrow> unit action" where
  "yt_info e b =
     try_catch
       (let url = body_url b in
        if \<not> truthy url \<or> \<not> validateURL e url then
          js_then (res_status 400) (\<lambda>_.
            res_json (Obj [(''error'', Str ''Invalid YouTube URL'')]))
        else
          js_then (call_getInfo e url) (\<lambda>info.
            let fmts = filterFormats e (formats info);
                qualities = map (to_quality e) fmts;
                uniq = uniqueQualities qualities
            in js_then (last_thumbnail (thumbnails info)) (\<lambda>thumb.
                 res_json (Obj [(''success'', Bool True),
                                (''title'', Str (title info)),
                                (''thumbnail'', Str thumb),
                                (''duration'', Str (lengthSeconds info)),
                                (''author'', Str (author info)),
                                (''qualities'', Arr (map quality_json (sortQualities uniq)))]))))
       yt_info_catch"

subsection \<open>POST /api/youtube/download (lines 72 to 114)\<close>

definition content_disposition :: "string \<Rightarrow> string" where
  "content_disposition t =
     ''attachment; filename='' @ [CHR 0x22] @ t @ ''.mp4'' @ [CHR 0x22]"

text \<open>The listener of \<open>videoStream.on('error', ...)\<close>, lines 95 to 103.\<close>

definition yt_stream_on_error :: "js_error \<Rightarrow> unit action" where
  "yt_stream_on_error error =
     (\<lambda>w. if \<not> headersSent (res w) then
            js_then (res_status 500) (\<lambda>_.
              res_json (Obj [(''error'', Str ''Download failed''),
                             (''details'', message error)])) w
          else (Inr (), w))"

text \<open>The \<open>catch\<close> block, lines 105 to 113.\<close>

definition yt_download_catch :: "js_error \<Rightarrow> unit action" where
  "yt_download_catch error =
     (\<lambda>w. if \<not> headersSent (res w) then
            js_then (res_status 500) (\<lambda>_.
              res_json (Obj [(''error'', Str ''Failed to download video''),
                             (''details'', message error)])) w
          else (Inr (), w))"

text \<open>The \<open>try\<close> block. It returns the stream it has piped into the response, or
  \<open>None\<close> when it returned before creating one.\<close>

definition yt_download_try :: "env \<Rightarrow> req_body \<Rightarrow> yt_stream option action" where
  "yt_download_try e b =
     (let url = body_url b; itag = body_itag b in
      if \<not> truthy url \<or> \<not> validateURL e url then
        js_then (res_status 400) (\<lambda>_.
          js_then (res_json (Obj [(''error'', Str ''Invalid YouTube URL'')])) (\<lambda>_.
            js_return None))
      else
        js_then (call_getInfo e url) (\<lambda>info.
          let title = sanitize_title (title info) in
          js_then (res_header ''Content-Disposition'' (content_disposition title)) (\<lambda>_.
          js_then (res_header ''Content-Type'' ''video/mp4'') (\<lambda>_.
          js_then (call_ytdl e url (js_or itag (Str ''highest''))) (\<lambda>videoStream.
            js_return (Some videoStream))))))"

text \<open>After the handler has returned, the stream runs: its chunks are written to the
  response, then it ends, or it emits \<open>error\<close> and the listener runs.\<close>

definition run_stream :: "yt_stream \<Rightarrow> unit action" where
  "run_stream videoStream =
     js_then (write_chunks (chunks videoStream)) (\<lambda>_.
       case failure videoStream of
         None \<Rightarrow> res_end
       | Some error \<Rightarrow> yt_stream_on_error error)"

definition yt_download :: "env \<Rightarrow> req_body \<Rightarrow> unit action" where
  "yt_download e b =
     js_then
       (try_catch (yt_download_try e b)
          (\<lambda>error. js_then (yt_download_catch error) (\<lambda>_. js_return None)))
       (\<lambda>piped. case piped of
                  None \<Rightarrow> js_return ()
                | Some videoStream \<Rightarrow> run_stream videoStream)"

subsection \<open>POST /api/instagram/info (lines 117 to 157)\<close>

text \<open>
  \<open>url.includes('instagram.com')\<close> on a truthy value: a string looks for the substring,
  an array for an element, and any other value has no \<open>includes\<close>, so the call throws
  a TypeError.
\<close>

definition url_includes :: "js_value \<Rightarrow> string \<Rightarrow> js_error + bool" where
  "url_includes v p =
     (case v of
        Str s \<Rightarrow> Inr (js_includes s p)
      | Arr xs \<Rightarrow> Inr (List.member xs (Str p))
      | _ \<Rightarrow> Inl (JsError (Str ''url.includes is not a function'')))"

text \<open>The condition of line 121, \<open>!url || !url.includes('instagram.com')\<close>.\<close>

definition ig_invalid_url :: "js_value \<Rightarrow> js_error + bool" where
  "ig_invalid_url url =
     (if \<not> truthy url then Inr True
      else case url_includes url ''instagram.com'' of
             Inl error \<Rightarrow> Inl error
           | Inr found \<Rightarrow> Inr (\<not> found))"

text \<open>The value of an expression that touches neither the response nor the libraries,
  or the settlement of a promise that is awaited.\<close>

definition await_value :: "js_error + 'a \<Rightarrow> 'a action" where
  "await_value r = (\<lambda>w. (r, w))"

text \<open>\<open>xs[i]\<close> on an array of strings: \<open>undefined\<close> out of range.\<close>

definition js_nth :: "string list \<Rightarrow> nat \<Rightarrow> js_value" where
  "js_nth xs i = (if i < length xs then Str (xs ! i) else Undefined)"

text \<open>\<open>Array.prototype.map\<close> with the callback \<open>(element, index)\<close>.\<close>

definition map_indexed :: "('a \<Rightarrow> nat \<Rightarrow> 'b) \<Rightarrow> 'a list \<Rightarrow> 'b list" where
  "map_indexed f xs = map (\<lambda>(i, x). f x i) (enumerate 0 xs)"

text \<open>The callback of lines 136 to 142.\<close>

definition ig_quality :: "string \<Rightarrow> nat \<Rightarrow> js_value" where
  "ig_quality urlItem index =
     Obj [(''url'', Str urlItem),
          (''quality'', Str (if index = 0 then ''1080p (Full HD)''
                             else if index = 1 then ''720p (HD)'' else ''480p'')),
          (''format'', Str ''mp4''),
          (''size'', Str ''Unknown'')]"

definition ig_not_found :: "unit action" where
  "ig_not_found =
     js_then (res_status 404) (\<lambda>_.
       res_json (Obj [(''error'', Str ''Could not fetch Instagram video'')]))"

definition ig_info_catch :: "js_error \<Rightarrow> unit action" where
  "ig_info_catch error =
     js_then (res_status 500) (\<lambda>_.
       res_json (Obj [(''error'', Str ''Failed to fetch Instagram video''),
                      (''details'', message error)]))"

definition ig_info :: "env \<Rightarrow> req_body \<Rightarrow> unit action" where
  "ig_info e b =
     try_catch
       (let url = body_url b in
        js_then (await_value (ig_invalid_url url))
          (\<lambda>invalid.
            if invalid then
              js_then (res_status 400) (\<lambda>_.
                res_json (Obj [(''error'', Str ''Invalid Instagram URL'')]))
            else
              js_then (call_instagramGetUrl e url) (\<lambda>result.
                case result of
                  None \<Rightarrow> ig_not_found
                | Some r \<Rightarrow>
                    (case url_list r of
                       None \<Rightarrow> ig_not_found
                     | Some urls \<Rightarrow>
                         let qualities = map_indexed ig_quality urls in
                         res_json (Obj [(''success'', Bool True),
                                        (''thumbnail'', js_or (thumbnail r) (js_nth urls 0)),
                                        (''qualities'', Arr qualities)])))))
       ig_info_catch"

subsection \<open>POST /api/instagram/download (lines 160 to 190)\<close>

text \<open>The \<open>catch\<close> block, lines 183 to 189.\<close>

definition ig_download_catch :: "js_error \<Rightarrow> unit action" where
  "ig_download_catch error =
     js_then (res_status 500) (\<lambda>_.
       res_json (Obj [(''error'', Str ''Failed to download video''),
                      (''details'', message error)]))"

text \<open>The \<open>try\<close> block, lines 162 to 181.\<close>

definition ig_download_try :: "env \<Rightarrow> req_body \<Rightarrow> unit action" where
  "ig_download_try e b =
     (let qualityUrl = body_qualityUrl b in
      if \<not> truthy qualityUrl then
        js_then (res_status 400) (\<lambda>_.
          res_json (Obj [(''error'', Str ''Quality URL is required'')]))
      else
        js_then (call_fetch e qualityUrl) (\<lambda>response.
          if \<not> ok response then js_throw (JsError (Str ''Failed to fetch video''))
          else
            js_then (await_value (arrayBuffer response)) (\<lambda>buffer.
            js_then (res_header ''Content-Disposition''
                       (''attachment; filename='' @ [CHR 0x22] @ ''instagram_video.mp4'' @ [CHR 0x22])) (\<lambda>_.
            js_then (res_header ''Content-Type'' ''video/mp4'') (\<lambda>_.
              res_send buffer)))))"

definition ig_download :: "env \<Rightarrow> req_body \<Rightarrow> unit action" where
  "ig_download e b = try_catch (ig_download_try e b) ig_download_catch"

subsection \<open>GET /health (lines 193 to 195) and the routes\<close>

definition health :: "unit action" where
  "health =
     res_json (Obj [(''status'', Str ''OK''),
                    (''message'', Str ''Video Downloader API is running'')])"

text \<open>The routes registered on \<open>app\<close>. A request is taken after Express has matched
  its method and path to one of them and \<open>express.json()\<close> has parsed its body.\<close>

datatype endpoint =
    YoutubeInfo
  | YoutubeDownload
  | InstagramInfo
  | InstagramDownload
  | Health

record request =
  req_endpoint :: endpoint
  req_body :: req_body

fun handler :: "env \<Rightarrow> endpoint \<Rightarrow> req_body \<Rightarrow> unit action" where
  "handler e YoutubeInfo b = yt_info e b"
| "handler e YoutubeDownload b = yt_download e b"
| "handler e InstagramInfo b = ig_info e b"
| "handler e InstagramDownload b = ig_download e b"
| "handler e Health b = health"

text \<open>Every request gets a new response, and the file keeps no state between
  requests. The result is what the handler's promise settles to (\<open>Inl\<close> is an error
  that no \<open>catch\<close> block took) and the world it leaves.\<close>

definition new_world :: world where
  "new_world = \<lparr> res = new_response, calls = [] \<rparr>"

definition handle_request :: "env \<Rightarrow> request \<Rightarrow> (js_error + unit) \<times> world" where
  "handle_request e r = handler e (req_endpoint r) (req_body r) new_world"

definition serve :: "env \<Rightarrow> request list \<Rightarrow> ((js_error + unit) \<times> world) list" where
  "serve e rs = map (handle_request e) rs"

subsection \<open>The spec's notion of a platform URL, and sample data\<close>

text \<open>
  The spec calls the validator a check that the string is a syntactically plausible URL
  for the target platform. For Instagram, \<open>spec_instagram_url\<close> writes that out: an
  \<open>http\<close> or \<open>https\<close> URL on the host \<open>instagram.com\<close> (with or without \<open>www.\<close>), free of
  white space.
\<close>

definition spec_instagram_url :: "string \<Rightarrow> bool" where
  "spec_instagram_url s =
     (list_ex (startsWith s)
        [''https://www.instagram.com/'', ''https://instagram.com/'',
         ''http://www.instagram.com/'', ''http://instagram.com/'']
      \<and> \<not> list_ex is_space s)"



text \<open>Sample values for the concrete instances below.\<close>

definition sample_quality :: "string \<Rightarrow> quality_option" where
  "sample_quality l =
     \<lparr> q_itag = 18, q_quality = l, q_format = ''mp4'', q_size = ''Unknown'',
       q_hasAudio = True, q_hasVideo = True \<rparr>"

definition sample_info :: video_info where
  "sample_info =
     \<lparr> formats = [], title = ''Me at the zoo: part 1/2?'',
       thumbnails = [''https://i.ytimg.com/vi/a/default.jpg''],
       lengthSeconds = ''19'', author = ''jawed'' \<rparr>"

definition sample_env :: env where
  "sample_env =
     \<lparr> validateURL =
         (\<lambda>u. case u of Str s \<Rightarrow> startsWith s ''https://www.youtube.com/watch?v='' | _ \<Rightarrow> False),
       getInfo = (\<lambda>u. Inr sample_info),
       filterFormats = filter (\<lambda>f. hasAudio f \<and> hasVideo f),
       toFixedMB = (\<lambda>n. ''0.00''),
       ytdl = (\<lambda>u q. Inr \<lparr> chunks = [''ftyp'', ''mdat''], failure = None \<rparr>),
       instagramGetUrl =
         (\<lambda>u. Inr (Some \<lparr> url_list = Some [''https://cdn.example/a.mp4'',
                                             ''https://cdn.example/b.mp4'',
                                             ''https://cdn.example/c.mp4''],
                            thumbnail = Undefined \<rparr>)),
       fetch = (\<lambda>u. Inr \<lparr> ok = True, arrayBuffer = Inr ''video bytes'' \<rparr>) \<rparr>"

text \<open>The same world with every library call failing.\<close>

definition failing_env :: env where
  "failing_env =
     sample_env \<lparr> getInfo := (\<lambda>u. Inl (JsError (Str ''Video unavailable''))),
                  instagramGetUrl := (\<lambda>u. Inl (JsError (Str ''Request failed''))),
                  fetch := (\<lambda>u. Inl (JsError (Str ''fetch failed''))) \<rparr>"

definition sample_body :: "js_value \<Rightarrow> req_body" where
  "sample_body u = \<lparr> body_url = u, body_itag = Undefined, body_qualityUrl = Undefined \<rparr>"

text \<open>A response in the middle of a download: the head and a first chunk are out.\<close>

definition streaming_world :: world where
  "streaming_world =
     \<lparr> res = \<lparr> statusCode = 200,
               headers = [(''Content-Disposition'',
                           ''attachment; filename='' @ [CHR 0x22] @ ''clip.mp4'' @ [CHR 0x22]),
                          (''Content-Type'', ''video/mp4'')],
               headersSent = True, body = [Chunk ''ftyp''], ended = False \<rparr>,
       calls = [] \<rparr>"

section \<open>Properties\<close>

subsection \<open>The quality sort\<close>




































subsection \<open>The deduplication filter\<close>

lemma findIndex_ge: "findIndex P xs \<ge> -1"
  by (induction xs) (auto simp: Let_def)

lemma findIndex_first:
  "findIndex P xs = int i \<longleftrightarrow> (i < length xs \<and> P (xs ! i) \<and> (\<forall>j<i. \<not> P (xs ! j)))"
proof (induction xs arbitrary: i)
  case Nil
  then show ?case by simp
next
  case (Cons x xs)
  show ?case
  proof (cases "P x")
    case True
    then show ?thesis by (cases i) auto
  next
    case False
    show ?thesis
    proof (cases i)
      case 0
      with False findIndex_ge[of P xs] show ?thesis by (auto simp: Let_def)
    next
      case (Suc k)
      have "findIndex P (x # xs) = int (Suc k) \<longleftrightarrow> findIndex P xs = int k"
        using False findIndex_ge[of P xs] by (auto simp: Let_def)
      also have "\<dots> \<longleftrightarrow> (k < length xs \<and> P (xs ! k) \<and> (\<forall>j<k. \<not> P (xs ! j)))"
        by (rule Cons.IH)
      also have "\<dots> \<longleftrightarrow> (Suc k < length (x # xs) \<and> P ((x # xs) ! Suc k) \<and> (\<forall>j<Suc k. \<not> P ((x # xs) ! j)))"
        using False by (auto simp: less_Suc_eq_0_disj)
      finally show ?thesis using Suc by simp
    qed
  qed
qed

lemma filter_indexed_nths:
  "filter_indexed f self = nths self {i. i < length self \<and> f (self ! i) i self}"
proof -
  let ?n = "length self"
  let ?A = "{i. i < ?n \<and> f (self ! i) i self}"
  have "filter_indexed f self = map snd (filter (\<lambda>(i, x). f x i self) (zip [0..<?n] self))"
    by (simp add: filter_indexed_def enumerate_eq_zip)
  also have "zip [0..<?n] self = map (\<lambda>(x, i). (i, x)) (zip self [0..<?n])"
    by (rule zip_commute)
  also have "map snd (filter (\<lambda>(i, x). f x i self) (map (\<lambda>(x, i). (i, x)) (zip self [0..<?n])))
           = map fst (filter (\<lambda>p. f (fst p) (snd p) self) (zip self [0..<?n]))"
    by (simp add: filter_map o_def case_prod_beta)
  also have "filter (\<lambda>p. f (fst p) (snd p) self) (zip self [0..<?n])
           = filter (\<lambda>p. snd p \<in> ?A) (zip self [0..<?n])"
    by (rule filter_cong) (auto simp: set_zip)
  finally show ?thesis by (simp add: nths_def)
qed

lemma uniqueQualities_nths:
  "uniqueQualities qs = nths qs {i. \<forall>j<i. q_quality (qs ! j) \<noteq> q_quality (qs ! i)}"
proof -
  have "uniqueQualities qs =
        nths qs {i. i < length qs \<and> int i = findIndex (\<lambda>q. q_quality q = q_quality (qs ! i)) qs}"
    by (simp add: uniqueQualities_def filter_indexed_nths)
  also have "{i. i < length qs \<and> int i = findIndex (\<lambda>q. q_quality q = q_quality (qs ! i)) qs}
           = {i. i < length qs \<and> (\<forall>j<i. q_quality (qs ! j) \<noteq> q_quality (qs ! i))}"
    using findIndex_first[of "\<lambda>q. q_quality q = q_quality (qs ! i)" qs for i]
    by (auto simp: eq_commute[of "int _"])
  also have "nths qs \<dots> = nths qs {i. \<forall>j<i. q_quality (qs ! j) \<noteq> q_quality (qs ! i)}"
    by (simp add: nths_def) (rule arg_cong[where f = "map fst"], rule filter_cong, auto simp: set_zip)
  finally show ?thesis .
qed

lemma filter_nths:
  "filter P (nths xs B) = nths xs {i. i \<in> B \<and> P (xs ! i)}"
proof -
  have "filter P (nths xs B)
        = map fst (filter (\<lambda>p. P (fst p) \<and> snd p \<in> B) (zip xs [0..<length xs]))"
    by (simp add: nths_def filter_map o_def conj_commute)
  also have "filter (\<lambda>p. P (fst p) \<and> snd p \<in> B) (zip xs [0..<length xs])
           = filter (\<lambda>p. snd p \<in> {i. i \<in> B \<and> P (xs ! i)}) (zip xs [0..<length xs])"
    by (rule filter_cong) (auto simp: set_zip)
  finally show ?thesis by (simp add: nths_def)
qed

lemma uniqueQualities_Nil: "uniqueQualities [] = []"
  by (simp add: uniqueQualities_nths)

lemma uniqueQualities_Cons:
  "uniqueQualities (q # qs) = q # filter (\<lambda>x. q_quality x \<noteq> q_quality q) (uniqueQualities qs)"
proof -
  let ?k = q_quality
  have "uniqueQualities (q # qs)
        = q # nths qs {j. \<forall>i<Suc j. ?k ((q # qs) ! i) \<noteq> ?k (qs ! j)}"
    by (simp add: uniqueQualities_nths nths_Cons)
  also have "{j. \<forall>i<Suc j. ?k ((q # qs) ! i) \<noteq> ?k (qs ! j)}
           = {j. (\<forall>i<j. ?k (qs ! i) \<noteq> ?k (qs ! j)) \<and> ?k (qs ! j) \<noteq> ?k q}"
    by (auto simp: less_Suc_eq_0_disj)
  also have "nths qs \<dots> = filter (\<lambda>x. ?k x \<noteq> ?k q) (uniqueQualities qs)"
    by (simp add: uniqueQualities_nths filter_nths)
  finally show ?thesis .
qed

lemma uniqueQualities_set:
  "q_quality ` set (uniqueQualities qs) = q_quality ` set qs"
proof (induction qs)
  case Nil
  show ?case by (simp add: uniqueQualities_Nil)
next
  case (Cons q qs)
  have "q_quality ` set (uniqueQualities (q # qs))
        = insert (q_quality q) (q_quality ` set (uniqueQualities qs))"
    by (auto simp: uniqueQualities_Cons)
  then show ?case using Cons.IH by simp
qed

lemma uniqueQualities_distinct:
  "distinct (map q_quality (uniqueQualities qs))"
proof (induction qs)
  case Nil
  show ?case by (simp add: uniqueQualities_Nil)
next
  case (Cons q qs)
  then show ?case
    by (auto simp: uniqueQualities_Cons distinct_map_filter)
qed

lemma uniqueQualities_subseq: "subseq (uniqueQualities qs) qs"
  unfolding subseq_conv_nths uniqueQualities_nths by blast

text \<open>
  C2. The deduplication filter keeps exactly the options that stand at the first index
  of their label: the result is the sublist of the input at the indices before which the
  label does not occur. So it is a subsequence of the input (the relative order is the
  input's), no label occurs twice in it, and it has every label of the input.
\<close>

theorem uniqueQualities_first_occurrence:
  "uniqueQualities qs = nths qs {i. \<forall>j<i. q_quality (qs ! j) \<noteq> q_quality (qs ! i)}
   \<and> subseq (uniqueQualities qs) qs
   \<and> distinct (map q_quality (uniqueQualities qs))
   \<and> set (map q_quality (uniqueQualities qs)) = set (map q_quality qs)"
  using uniqueQualities_nths[of qs] uniqueQualities_subseq[of qs]
    uniqueQualities_distinct[of qs] uniqueQualities_set[of qs]
  by simp

theorem uniqueQualities_first_occurrence_witness:
  "uniqueQualities [sample_quality ''720p'', sample_quality ''360p'',
                    (sample_quality ''720p'')\<lparr>q_itag := 22\<rparr>]
     = [sample_quality ''720p'', sample_quality ''360p'']"
  using uniqueQualities_first_occurrence
    [of "[sample_quality ''720p'', sample_quality ''360p'', (sample_quality ''720p'')\<lparr>q_itag := 22\<rparr>]"]
  by (simp add: nths_Cons sample_quality_def less_Suc_eq_0_disj)

subsection \<open>Validation of the URL on the info routes\<close>

lemmas action_defs =
  js_then_def try_catch_def js_return_def js_throw_def await_value_def
  res_status_def res_json_def res_header_def res_send_def res_write_def res_end_def
  call_getInfo_def call_ytdl_def call_instagramGetUrl_def call_fetch_def

lemmas start_defs = handle_request_def new_world_def new_response_def

text \<open>
  C3, as the code has it. A request whose \<open>url\<close> is missing or otherwise falsy, or is
  rejected by the route's own check, is answered with status 400 and an \<open>error\<close> field,
  and no library call is made. The check of the YouTube route is \<open>ytdl.validateURL\<close>;
  the check of the Instagram route is that the string contains \<open>instagram.com\<close>.
\<close>

theorem info_invalid_url_400:
  "((\<not> truthy (body_url b) \<or> \<not> validateURL e (body_url b)) \<longrightarrow>
      handle_request e \<lparr> req_endpoint = YoutubeInfo, req_body = b \<rparr>
        = (Inr (), \<lparr> res = \<lparr> statusCode = 400, headers = [], headersSent = True,
                             body = [Json (Obj [(''error'', Str ''Invalid YouTube URL'')])],
                             ended = True \<rparr>,
                     calls = [] \<rparr>))
   \<and> ((\<not> truthy (body_url b) \<or> (\<exists>s. body_url b = Str s \<and> \<not> js_includes s ''instagram.com'')) \<longrightarrow>
      handle_request e \<lparr> req_endpoint = InstagramInfo, req_body = b \<rparr>
        = (Inr (), \<lparr> res = \<lparr> statusCode = 400, headers = [], headersSent = True,
                             body = [Json (Obj [(''error'', Str ''Invalid Instagram URL'')])],
                             ended = True \<rparr>,
                     calls = [] \<rparr>))"
proof (intro conjI impI)
  assume "\<not> truthy (body_url b) \<or> \<not> validateURL e (body_url b)"
  then show "handle_request e \<lparr> req_endpoint = YoutubeInfo, req_body = b \<rparr>
        = (Inr (), \<lparr> res = \<lparr> statusCode = 400, headers = [], headersSent = True,
                             body = [Json (Obj [(''error'', Str ''Invalid YouTube URL'')])],
                             ended = True \<rparr>,
                     calls = [] \<rparr>)"
    by (auto simp: start_defs yt_info_def action_defs)
next
  assume "\<not> truthy (body_url b) \<or> (\<exists>s. body_url b = Str s \<and> \<not> js_includes s ''instagram.com'')"
  then have "ig_invalid_url (body_url b) = Inr True"
    by (auto simp: ig_invalid_url_def url_includes_def)
  then show "handle_request e \<lparr> req_endpoint = InstagramInfo, req_body = b \<rparr>
        = (Inr (), \<lparr> res = \<lparr> statusCode = 400, headers = [], headersSent = True,
                             body = [Json (Obj [(''error'', Str ''Invalid Instagram URL'')])],
                             ended = True \<rparr>,
                     calls = [] \<rparr>)"
    by (simp add: start_defs ig_info_def action_defs)
qed

theorem info_invalid_url_400_witness:
  "\<not> validateURL sample_env (Str ''hello'')
   \<and> \<not> js_includes ''hello'' ''instagram.com''
   \<and> statusCode (res (snd (handle_request sample_env
         \<lparr> req_endpoint = YoutubeInfo, req_body = sample_body (Str ''hello'') \<rparr>))) = 400
   \<and> calls (snd (handle_request sample_env
         \<lparr> req_endpoint = InstagramInfo, req_body = sample_body (Str ''hello'') \<rparr>)) = []
   \<and> statusCode (res (snd (handle_request sample_env
         \<lparr> req_endpoint = InstagramInfo, req_body = sample_body Undefined \<rparr>))) = 400"
proof -
  have a: "\<not> validateURL sample_env (Str ''hello'')" by (simp add: sample_env_def)
  have b: "\<not> js_includes ''hello'' ''instagram.com''" by simp
  show ?thesis
    using a b info_invalid_url_400[of "sample_body (Str ''hello'')" sample_env]
      info_invalid_url_400[of "sample_body Undefined" sample_env]
    by (simp add: sample_body_def)
qed

text \<open>
  C3 as the spec states it fails on the Instagram route: a string that is no URL but
  contains \<open>instagram.com\<close> passes line 121, the extractor is called with it, and the
  answer is whatever the extractor's result leads to, here a success.
\<close>

theorem info_non_url_400_counterexample:
  "\<not> spec_instagram_url ''not a url instagram.com''
   \<and> handle_request sample_env
        \<lparr> req_endpoint = InstagramInfo, req_body = sample_body (Str ''not a url instagram.com'') \<rparr>
      = (Inr (),
         \<lparr> res = \<lparr> statusCode = 200, headers = [], headersSent = True,
                   body = [Json (Obj [(''success'', Bool True),
                                      (''thumbnail'', Str ''https://cdn.example/a.mp4''),
                                      (''qualities'',
                                       Arr [ig_quality ''https://cdn.example/a.mp4'' 0,
                                            ig_quality ''https://cdn.example/b.mp4'' 1,
                                            ig_quality ''https://cdn.example/c.mp4'' 2])])],
                   ended = True \<rparr>,
           calls = [InstagramGetUrl (Str ''not a url instagram.com'')] \<rparr>)"
  by (simp add: spec_instagram_url_def start_defs ig_info_def action_defs sample_env_def
      sample_body_def ig_invalid_url_def url_includes_def map_indexed_def js_or_def js_nth_def
      ig_quality_def enumerate_eq_zip upt_rec Let_def)

subsection \<open>Failures of the extractor on the info routes\<close>

text \<open>
  C5. When the request passes the route's URL check and the extractor call throws, the
  info route answers with status 500 and a body that has the field \<open>error\<close>, the field
  \<open>details\<close> when the thrown value has a message, and no other field; so none of
  \<open>success\<close>, \<open>title\<close>, \<open>thumbnail\<close>, \<open>duration\<close>, \<open>author\<close>, \<open>qualities\<close>.
\<close>

theorem info_extractor_throws_500:
  "(truthy (body_url b) \<and> validateURL e (body_url b) \<and> getInfo e (body_url b) = Inl error \<longrightarrow>
      handle_request e \<lparr> req_endpoint = YoutubeInfo, req_body = b \<rparr>
        = (Inr (),
           \<lparr> res = \<lparr> statusCode = 500, headers = [], headersSent = True,
                     body = [Json (Obj ((''error'', Str ''Failed to fetch video information'')
                                        # (if message error = Undefined then []
                                           else [(''details'', json_of (message error))])))],
                     ended = True \<rparr>,
             calls = [GetInfo (body_url b)] \<rparr>))
   \<and> (ig_invalid_url (body_url b) = Inr False \<and> instagramGetUrl e (body_url b) = Inl error \<longrightarrow>
      handle_request e \<lparr> req_endpoint = InstagramInfo, req_body = b \<rparr>
        = (Inr (),
           \<lparr> res = \<lparr> statusCode = 500, headers = [], headersSent = True,
                     body = [Json (Obj ((''error'', Str ''Failed to fetch Instagram video'')
                                        # (if message error = Undefined then []
                                           else [(''details'', json_of (message error))])))],
                     ended = True \<rparr>,
             calls = [InstagramGetUrl (body_url b)] \<rparr>))"
  by (simp add: start_defs yt_info_def yt_info_catch_def ig_info_def ig_info_catch_def
      action_defs Let_def)

theorem info_extractor_throws_500_witness:
  "truthy (Str ''https://www.youtube.com/watch?v=jNQXAC9IVRw'')
   \<and> validateURL failing_env (Str ''https://www.youtube.com/watch?v=jNQXAC9IVRw'')
   \<and> getInfo failing_env (Str ''https://www.youtube.com/watch?v=jNQXAC9IVRw'')
       = Inl (JsError (Str ''Video unavailable''))
   \<and> handle_request failing_env
        \<lparr> req_endpoint = YoutubeInfo,
          req_body = sample_body (Str ''https://www.youtube.com/watch?v=jNQXAC9IVRw'') \<rparr>
      = (Inr (),
         \<lparr> res = \<lparr> statusCode = 500, headers = [], headersSent = True,
                   body = [Json (Obj [(''error'', Str ''Failed to fetch video information''),
                                      (''details'', Str ''Video unavailable'')])],
                   ended = True \<rparr>,
           calls = [GetInfo (Str ''https://www.youtube.com/watch?v=jNQXAC9IVRw'')] \<rparr>)
   \<and> ig_invalid_url (Str ''https://www.instagram.com/p/abc/'') = Inr False
   \<and> instagramGetUrl failing_env (Str ''https://www.instagram.com/p/abc/'')
       = Inl (JsError (Str ''Request failed''))
   \<and> handle_request failing_env
        \<lparr> req_endpoint = InstagramInfo,
          req_body = sample_body (Str ''https://www.instagram.com/p/abc/'') \<rparr>
      = (Inr (),
         \<lparr> res = \<lparr> statusCode = 500, headers = [], headersSent = True,
                   body = [Json (Obj [(''error'', Str ''Failed to fetch Instagram video''),
                                      (''details'', Str ''Request failed'')])],
                   ended = True \<rparr>,
           calls = [InstagramGetUrl (Str ''https://www.instagram.com/p/abc/'')] \<rparr>)"
proof -
  let ?y = "Str ''https://www.youtube.com/watch?v=jNQXAC9IVRw''"
  let ?i = "Str ''https://www.instagram.com/p/abc/''"
  have y: "truthy ?y" "validateURL failing_env ?y"
    "getInfo failing_env ?y = Inl (JsError (Str ''Video unavailable''))"
    by (simp_all add: failing_env_def sample_env_def)
  have i: "ig_invalid_url ?i = Inr False"
    "instagramGetUrl failing_env ?i = Inl (JsError (Str ''Request failed''))"
    by (simp_all add: failing_env_def sample_env_def ig_invalid_url_def url_includes_def)
  show ?thesis
    using y i
      info_extractor_throws_500[of "sample_body ?y" failing_env "JsError (Str ''Video unavailable'')"]
      info_extractor_throws_500[of "sample_body ?i" failing_env "JsError (Str ''Request failed'')"]
    by (simp add: sample_body_def)
qed

text \<open>
  C6. When the request passes the check of line 121 and the extractor returns no result,
  or a result without a list of stream URLs, the Instagram info route answers with
  status 404 and a body whose only field is \<open>error\<close>.
\<close>

theorem ig_info_no_stream_404:
  "ig_invalid_url (body_url b) = Inr False
   \<and> (instagramGetUrl e (body_url b) = Inr None
      \<or> (\<exists>r. instagramGetUrl e (body_url b) = Inr (Some r) \<and> url_list r = None)) \<longrightarrow>
   handle_request e \<lparr> req_endpoint = InstagramInfo, req_body = b \<rparr>
     = (Inr (),
        \<lparr> res = \<lparr> statusCode = 404, headers = [], headersSent = True,
                  body = [Json (Obj [(''error'', Str ''Could not fetch Instagram video'')])],
                  ended = True \<rparr>,
          calls = [InstagramGetUrl (body_url b)] \<rparr>)"
  by (auto simp: start_defs ig_info_def ig_not_found_def action_defs Let_def)

theorem ig_info_no_stream_404_witness:
  "ig_invalid_url (Str ''https://www.instagram.com/p/abc/'') = Inr False
   \<and> instagramGetUrl (sample_env\<lparr>instagramGetUrl := (\<lambda>u. Inr None)\<rparr>)
        (Str ''https://www.instagram.com/p/abc/'') = Inr None
   \<and> handle_request (sample_env\<lparr>instagramGetUrl := (\<lambda>u. Inr None)\<rparr>)
        \<lparr> req_endpoint = InstagramInfo,
          req_body = sample_body (Str ''https://www.instagram.com/p/abc/'') \<rparr>
      = (Inr (),
         \<lparr> res = \<lparr> statusCode = 404, headers = [], headersSent = True,
                   body = [Json (Obj [(''error'', Str ''Could not fetch Instagram video'')])],
                   ended = True \<rparr>,
           calls = [InstagramGetUrl (Str ''https://www.instagram.com/p/abc/'')] \<rparr>)
   \<and> statusCode (res (snd (handle_request
        (sample_env\<lparr>instagramGetUrl := (\<lambda>u. Inr (Some \<lparr> url_list = None, thumbnail = Undefined \<rparr>))\<rparr>)
        \<lparr> req_endpoint = InstagramInfo,
          req_body = sample_body (Str ''https://www.instagram.com/p/abc/'') \<rparr>))) = 404"
proof -
  let ?i = "Str ''https://www.instagram.com/p/abc/''"
  let ?e1 = "sample_env\<lparr>instagramGetUrl := (\<lambda>u. Inr None)\<rparr>"
  let ?e2 = "sample_env\<lparr>instagramGetUrl := (\<lambda>u. Inr (Some \<lparr> url_list = None, thumbnail = Undefined \<rparr>))\<rparr>"
  have i: "ig_invalid_url ?i = Inr False"
    by (simp add: ig_invalid_url_def url_includes_def)
  have e1: "instagramGetUrl ?e1 ?i = Inr None" by simp
  have e2: "\<exists>r. instagramGetUrl ?e2 ?i = Inr (Some r) \<and> url_list r = None" by simp
  show ?thesis
    using i e1 e2 ig_info_no_stream_404[of "sample_body ?i" ?e1]
      ig_info_no_stream_404[of "sample_body ?i" ?e2]
    by (simp add: sample_body_def)
qed

subsection \<open>The qualities of the Instagram info route\<close>

lemma length_map_indexed: "length (map_indexed f xs) = length xs"
  by (simp add: map_indexed_def)

lemma nth_map_indexed: "i < length xs \<Longrightarrow> map_indexed f xs ! i = f (xs ! i) i"
  by (simp add: map_indexed_def nth_enumerate_eq)

lemma json_of_ig_qualities:
  "json_of (Arr (map_indexed ig_quality urls)) = Arr (map_indexed ig_quality urls)"
  by (simp add: map_indexed_def ig_quality_def case_prod_beta)

text \<open>
  C8. In the success response of the Instagram info route, \<open>qualities\<close> has one entry
  for each URL of the extractor's \<open>url_list\<close>, in the same order; the entry at index
  \<open>i\<close> carries the URL at index \<open>i\<close>, the label \<open>1080p (Full HD)\<close> at index 0,
  \<open>720p (HD)\<close> at index 1 and \<open>480p\<close> at every later index, the format \<open>mp4\<close> and the
  size \<open>Unknown\<close>.
\<close>

theorem ig_info_qualities_by_position:
  "ig_invalid_url (body_url b) = Inr False
   \<and> instagramGetUrl e (body_url b) = Inr (Some r) \<and> url_list r = Some urls \<longrightarrow>
   (\<exists>qs. handle_request e \<lparr> req_endpoint = InstagramInfo, req_body = b \<rparr>
           = (Inr (),
              \<lparr> res = \<lparr> statusCode = 200, headers = [], headersSent = True,
                        body = [Json (Obj ((''success'', Bool True)
                                  # (if js_or (thumbnail r) (js_nth urls 0) = Undefined then []
                                     else [(''thumbnail'',
                                            json_of (js_or (thumbnail r) (js_nth urls 0)))])
                                  @ [(''qualities'', Arr qs)]))],
                        ended = True \<rparr>,
                calls = [InstagramGetUrl (body_url b)] \<rparr>)
       \<and> length qs = length urls
       \<and> (\<forall>i<length urls.
             qs ! i = Obj [(''url'', Str (urls ! i)),
                           (''quality'', Str (if i = 0 then ''1080p (Full HD)''
                                              else if i = 1 then ''720p (HD)'' else ''480p'')),
                           (''format'', Str ''mp4''),
                           (''size'', Str ''Unknown'')]))"
proof (cases "ig_invalid_url (body_url b) = Inr False
   \<and> instagramGetUrl e (body_url b) = Inr (Some r) \<and> url_list r = Some urls")
  case False
  then show ?thesis by blast
next
  case h: True
  let ?qs = "map_indexed ig_quality urls"
  have run: "handle_request e \<lparr> req_endpoint = InstagramInfo, req_body = b \<rparr>
           = (Inr (),
              \<lparr> res = \<lparr> statusCode = 200, headers = [], headersSent = True,
                        body = [Json (Obj ((''success'', Bool True)
                                  # (if js_or (thumbnail r) (js_nth urls 0) = Undefined then []
                                     else [(''thumbnail'',
                                            json_of (js_or (thumbnail r) (js_nth urls 0)))])
                                  @ [(''qualities'', Arr ?qs)]))],
                        ended = True \<rparr>,
                calls = [InstagramGetUrl (body_url b)] \<rparr>)"
    using h json_of_ig_qualities[of urls]
    by (simp add: start_defs ig_info_def action_defs Let_def)
  have nth: "\<forall>i<length urls.
             ?qs ! i = Obj [(''url'', Str (urls ! i)),
                           (''quality'', Str (if i = 0 then ''1080p (Full HD)''
                                              else if i = 1 then ''720p (HD)'' else ''480p'')),
                           (''format'', Str ''mp4''),
                           (''size'', Str ''Unknown'')]"
    by (simp add: nth_map_indexed ig_quality_def)
  from run nth length_map_indexed[of ig_quality urls] show ?thesis by blast
qed

theorem ig_info_qualities_by_position_witness:
  "ig_invalid_url (Str ''https://www.instagram.com/reel/xyz/'') = Inr False
   \<and> instagramGetUrl sample_env (Str ''https://www.instagram.com/reel/xyz/'')
       = Inr (Some \<lparr> url_list = Some [''https://cdn.example/a.mp4'', ''https://cdn.example/b.mp4'',
                                       ''https://cdn.example/c.mp4''],
                      thumbnail = Undefined \<rparr>)
   \<and> handle_request sample_env
        \<lparr> req_endpoint = InstagramInfo,
          req_body = sample_body (Str ''https://www.instagram.com/reel/xyz/'') \<rparr>
      = (Inr (),
         \<lparr> res = \<lparr> statusCode = 200, headers = [], headersSent = True,
                   body = [Json (Obj [(''success'', Bool True),
                      (''thumbnail'', Str ''https://cdn.example/a.mp4''),
                      (''qualities'',
                       Arr [Obj [(''url'', Str ''https://cdn.example/a.mp4''),
                                 (''quality'', Str ''1080p (Full HD)''),
                                 (''format'', Str ''mp4''), (''size'', Str ''Unknown'')],
                            Obj [(''url'', Str ''https://cdn.example/b.mp4''),
                                 (''quality'', Str ''720p (HD)''),
                                 (''format'', Str ''mp4''), (''size'', Str ''Unknown'')],
                            Obj [(''url'', Str ''https://cdn.example/c.mp4''),
                                 (''quality'', Str ''480p''),
                                 (''format'', Str ''mp4''), (''size'', Str ''Unknown'')]])])],
                   ended = True \<rparr>,
           calls = [InstagramGetUrl (Str ''https://www.instagram.com/reel/xyz/'')] \<rparr>)"
proof -
  let ?u = "Str ''https://www.instagram.com/reel/xyz/''"
  let ?r = "\<lparr> url_list = Some [''https://cdn.example/a.mp4'', ''https://cdn.example/b.mp4'',
                                ''https://cdn.example/c.mp4''],
               thumbnail = Undefined \<rparr>"
  let ?urls = "[''https://cdn.example/a.mp4'', ''https://cdn.example/b.mp4'',
                ''https://cdn.example/c.mp4'']"
  have i: "ig_invalid_url ?u = Inr False"
    by (simp add: ig_invalid_url_def url_includes_def)
  have g: "instagramGetUrl sample_env ?u = Inr (Some ?r)"
    by (simp add: sample_env_def)
  from ig_info_qualities_by_position[of "sample_body ?u" sample_env ?r ?urls] i g
  obtain qs where
    run: "handle_request sample_env \<lparr> req_endpoint = InstagramInfo, req_body = sample_body ?u \<rparr>
           = (Inr (),
              \<lparr> res = \<lparr> statusCode = 200, headers = [], headersSent = True,
                        body = [Json (Obj [(''success'', Bool True),
                                  (''thumbnail'', Str ''https://cdn.example/a.mp4''),
                                  (''qualities'', Arr qs)])],
                        ended = True \<rparr>,
                calls = [InstagramGetUrl ?u] \<rparr>)"
    and len: "length qs = 3"
    and nth: "\<forall>i<3. qs ! i = Obj [(''url'', Str (?urls ! i)),
                           (''quality'', Str (if i = 0 then ''1080p (Full HD)''
                                              else if i = 1 then ''720p (HD)'' else ''480p'')),
                           (''format'', Str ''mp4''),
                           (''size'', Str ''Unknown'')]"
    by (auto simp: sample_body_def js_or_def js_nth_def)
  from len obtain q0 q1 q2 where qs: "qs = [q0, q1, q2]"
    by (auto simp: length_Suc_conv numeral_3_eq_3)
  from nth have "qs ! 0 = Obj [(''url'', Str ''https://cdn.example/a.mp4''),
                                 (''quality'', Str ''1080p (Full HD)''),
                                 (''format'', Str ''mp4''), (''size'', Str ''Unknown'')]"
    "qs ! 1 = Obj [(''url'', Str ''https://cdn.example/b.mp4''),
                                 (''quality'', Str ''720p (HD)''),
                                 (''format'', Str ''mp4''), (''size'', Str ''Unknown'')]"
    "qs ! 2 = Obj [(''url'', Str ''https://cdn.example/c.mp4''),
                                 (''quality'', Str ''480p''),
                                 (''format'', Str ''mp4''), (''size'', Str ''Unknown'')]"
    by auto
  with qs run i g show ?thesis by simp
qed

subsection \<open>The Instagram download route and the health check\<close>

text \<open>
  C9. The Instagram download route does not depend on the \<open>url\<close> of the request body:
  two bodies that differ in \<open>url\<close> only lead to the same library calls and the same
  response.
\<close>

theorem ig_download_ignores_url:
  "handle_request e \<lparr> req_endpoint = InstagramDownload, req_body = b\<lparr>body_url := u\<rparr> \<rparr>
   = handle_request e \<lparr> req_endpoint = InstagramDownload, req_body = b\<lparr>body_url := v\<rparr> \<rparr>"
  by (simp add: handle_request_def ig_download_def ig_download_try_def)

theorem ig_download_ignores_url_witness:
  "handle_request sample_env
     \<lparr> req_endpoint = InstagramDownload,
       req_body = \<lparr> body_url = Str ''https://www.instagram.com/p/abc/'', body_itag = Undefined,
                    body_qualityUrl = Str ''https://cdn.example/a.mp4'' \<rparr> \<rparr>
   = handle_request sample_env
     \<lparr> req_endpoint = InstagramDownload,
       req_body = \<lparr> body_url = Undefined, body_itag = Undefined,
                    body_qualityUrl = Str ''https://cdn.example/a.mp4'' \<rparr> \<rparr>"
  using ig_download_ignores_url
    [where e = sample_env
       and b = "\<lparr> body_url = Undefined, body_itag = Undefined,
                  body_qualityUrl = Str ''https://cdn.example/a.mp4'' \<rparr>"
       and u = "Str ''https://www.instagram.com/p/abc/''" and v = Undefined]
  by simp

text \<open>
  C10. Whatever requests are served before and after it, a request to the health check
  is answered with status 200 and the JSON body with \<open>status\<close> equal to \<open>OK\<close> and a
  \<open>message\<close>; it makes no library call.
\<close>

theorem health_always_ok:
  "serve e (before @ [\<lparr> req_endpoint = Health, req_body = b \<rparr>] @ after) ! length before
   = (Inr (),
      \<lparr> res = \<lparr> statusCode = 200, headers = [], headersSent = True,
                body = [Json (Obj [(''status'', Str ''OK''),
                                   (''message'', Str ''Video Downloader API is running'')])],
                ended = True \<rparr>,
        calls = [] \<rparr>)"
  by (simp add: serve_def nth_append start_defs health_def res_json_def)

theorem health_always_ok_witness:
  "serve failing_env
     [\<lparr> req_endpoint = YoutubeInfo,
        req_body = sample_body (Str ''https://www.youtube.com/watch?v=jNQXAC9IVRw'') \<rparr>,
      \<lparr> req_endpoint = Health, req_body = sample_body Undefined \<rparr>] ! 1
   = (Inr (),
      \<lparr> res = \<lparr> statusCode = 200, headers = [], headersSent = True,
                body = [Json (Obj [(''status'', Str ''OK''),
                                   (''message'', Str ''Video Downloader API is running'')])],
                ended = True \<rparr>,
        calls = [] \<rparr>)"
  using health_always_ok
    [where e = failing_env
       and before = "[\<lparr> req_endpoint = YoutubeInfo,
                        req_body = sample_body (Str ''https://www.youtube.com/watch?v=jNQXAC9IVRw'') \<rparr>]"
       and b = "sample_body Undefined" and after = "[]"]
  by simp

subsection \<open>The YouTube download route\<close>

lemma sanitize_title_filter:
  "sanitize_title t = filter (\<lambda>c. is_word c \<or> is_space c) t"
  by (induction t) (simp_all add: sanitize_title_def special_char_def)

lemma write_chunks_eq:
  "write_chunks cs w =
     (Inr (), if cs = [] then w
              else w\<lparr>res := (res w)\<lparr>headersSent := True,
                                     body := body (res w) @ map Chunk cs\<rparr>\<rparr>)"
proof (induction cs arbitrary: w)
  case Nil
  show ?case by (simp add: js_return_def)
next
  case (Cons c cs)
  show ?case
    by (cases "cs = []") (simp_all add: js_then_def res_write_def Cons.IH js_return_def)
qed

lemma run_stream_eq:
  "run_stream s w =
     (Inr (),
      if chunks s = [] then
        (case failure s of
           None \<Rightarrow> w\<lparr>res := (res w)\<lparr>headersSent := True, ended := True\<rparr>\<rparr>
         | Some error \<Rightarrow>
             if headersSent (res w) then w
             else w\<lparr>res := (res w)\<lparr>statusCode := 500, headersSent := True,
                     body := body (res w)
                       @ [Json (json_of (Obj [(''error'', Str ''Download failed''),
                                              (''details'', message error)]))],
                     ended := True\<rparr>\<rparr>)
      else
        (case failure s of
           None \<Rightarrow> w\<lparr>res := (res w)\<lparr>headersSent := True,
                       body := body (res w) @ map Chunk (chunks s), ended := True\<rparr>\<rparr>
         | Some error \<Rightarrow> w\<lparr>res := (res w)\<lparr>headersSent := True,
                       body := body (res w) @ map Chunk (chunks s)\<rparr>\<rparr>))"
  by (simp add: run_stream_def write_chunks_eq yt_stream_on_error_def js_then_def res_end_def
      res_status_def res_json_def split: option.split)

lemma yt_download_try_cases:
  "(\<exists>j st. (st = 400 \<or> st = 500)
      \<and> try_catch (yt_download_try e b)
            (\<lambda>error. js_then (yt_download_catch error) (\<lambda>_. js_return None)) new_world
          = (Inr None, \<lparr> res = \<lparr> statusCode = st,
                                   headers = headers (res (snd (yt_download_try e b new_world))),
                                   headersSent = True, body = [Json j], ended = True \<rparr>,
                          calls = calls (snd (yt_download_try e b new_world)) \<rparr>))
   \<or> (\<exists>info s. getInfo e (body_url b) = Inr info
      \<and> try_catch (yt_download_try e b)
            (\<lambda>error. js_then (yt_download_catch error) (\<lambda>_. js_return None)) new_world
          = (Inr (Some s), \<lparr> res = \<lparr> statusCode = 200,
                     headers = [(''Content-Disposition'',
                                 content_disposition (sanitize_title (title info))),
                                (''Content-Type'', ''video/mp4'')],
                     headersSent = False, body = [], ended = False \<rparr>,
             calls = [GetInfo (body_url b),
                      Ytdl (body_url b) (js_or (body_itag b) (Str ''highest''))] \<rparr>))"
proof (cases "\<not> truthy (body_url b) \<or> \<not> validateURL e (body_url b)")
  case True
  then show ?thesis
    by (auto simp: yt_download_try_def action_defs new_world_def new_response_def)
next
  case valid: False
  show ?thesis
  proof (cases "getInfo e (body_url b)")
    case (Inl error)
    with valid show ?thesis
      by (auto simp: yt_download_try_def yt_download_catch_def action_defs new_world_def new_response_def)
  next
    case (Inr info)
    show ?thesis
    proof (cases "list_all valid_header_char (content_disposition (sanitize_title (title info)))")
      case False
      with valid Inr show ?thesis
        by (auto simp: yt_download_try_def yt_download_catch_def action_defs new_world_def
            new_response_def Let_def)
    next
      case True
      show ?thesis
      proof (cases "ytdl e (body_url b) (js_or (body_itag b) (Str ''highest''))")
        case (Inl error)
        with valid Inr True show ?thesis
          by (auto simp: yt_download_try_def yt_download_catch_def action_defs new_world_def
              new_response_def Let_def valid_header_char_def set_header_def)
      next
        case (Inr s)
        with valid \<open>getInfo e (body_url b) = Inr info\<close> True show ?thesis
          by (auto simp: yt_download_try_def action_defs new_world_def
              new_response_def Let_def valid_header_char_def set_header_def)
      qed
    qed
  qed
qed

lemma yt_download_cases:
  "(\<exists>j st hs cs. (st = 400 \<or> st = 500)
      \<and> handle_request e \<lparr> req_endpoint = YoutubeDownload, req_body = b \<rparr>
          = (Inr (), \<lparr> res = \<lparr> statusCode = st, headers = hs, headersSent = True,
                               body = [Json j], ended = True \<rparr>,
                       calls = cs \<rparr>))
   \<or> (\<exists>info s. getInfo e (body_url b) = Inr info
      \<and> handle_request e \<lparr> req_endpoint = YoutubeDownload, req_body = b \<rparr>
          = run_stream s
              \<lparr> res = \<lparr> statusCode = 200,
                     headers = [(''Content-Disposition'',
                                 content_disposition (sanitize_title (title info))),
                                (''Content-Type'', ''video/mp4'')],
                     headersSent = False, body = [], ended = False \<rparr>,
             calls = [GetInfo (body_url b),
                      Ytdl (body_url b) (js_or (body_itag b) (Str ''highest''))] \<rparr>)"
proof -
  let ?attempt = "try_catch (yt_download_try e b)
            (\<lambda>error. js_then (yt_download_catch error) (\<lambda>_. js_return None)) new_world"
  have run: "handle_request e \<lparr> req_endpoint = YoutubeDownload, req_body = b \<rparr>
      = (case ?attempt of
           (Inl error, w) \<Rightarrow> (Inl error, w)
         | (Inr None, w) \<Rightarrow> (Inr (), w)
         | (Inr (Some s), w) \<Rightarrow> run_stream s w)"
    by (simp add: handle_request_def yt_download_def js_then_def[of "try_catch _ _"] js_return_def
        split: prod.split sum.split option.split)
  consider
    (failed) j st where "st = 400 \<or> st = 500"
      "?attempt = (Inr None, \<lparr> res = \<lparr> statusCode = st,
                                   headers = headers (res (snd (yt_download_try e b new_world))),
                                   headersSent = True, body = [Json j], ended = True \<rparr>,
                          calls = calls (snd (yt_download_try e b new_world)) \<rparr>)"
  | (piped) info s where "getInfo e (body_url b) = Inr info"
      "?attempt = (Inr (Some s), \<lparr> res = \<lparr> statusCode = 200,
                     headers = [(''Content-Disposition'',
                                 content_disposition (sanitize_title (title info))),
                                (''Content-Type'', ''video/mp4'')],
                     headersSent = False, body = [], ended = False \<rparr>,
             calls = [GetInfo (body_url b),
                      Ytdl (body_url b) (js_or (body_itag b) (Str ''highest''))] \<rparr>)"
    using yt_download_try_cases[of e b] by blast
  then show ?thesis
  proof cases
    case failed
    then show ?thesis unfolding run by simp
  next
    case piped
    then show ?thesis unfolding run by auto
  qed
qed

text \<open>
  C7. A request to the YouTube download route that ends with the status 200 it started
  with (it was not answered with a 400 or 500 error) has sent its head with the header
  \<open>Content-Type\<close> set to \<open>video/mp4\<close> and the header \<open>Content-Disposition\<close> set to
  \<open>attachment\<close> with the file name made of the title of the video, without the
  characters that are neither word characters nor white space, followed by \<open>.mp4\<close>.
\<close>

theorem yt_download_success_headers:
  "handle_request e \<lparr> req_endpoint = YoutubeDownload, req_body = b \<rparr> = (r, w)
   \<and> statusCode (res w) = 200 \<longrightarrow>
   (\<exists>info. getInfo e (body_url b) = Inr info
      \<and> headersSent (res w)
      \<and> headers (res w)
          = [(''Content-Disposition'',
              ''attachment; filename='' @ [CHR 0x22]
                @ filter (\<lambda>c. is_word c \<or> is_space c) (title info) @ ''.mp4'' @ [CHR 0x22]),
             (''Content-Type'', ''video/mp4'')])"
  using yt_download_cases[of e b]
  by (auto simp: run_stream_eq content_disposition_def sanitize_title_filter
      split: if_splits option.splits)

theorem yt_download_success_headers_witness:
  "statusCode (res (snd (handle_request sample_env
      \<lparr> req_endpoint = YoutubeDownload,
        req_body = sample_body (Str ''https://www.youtube.com/watch?v=jNQXAC9IVRw'') \<rparr>))) = 200
   \<and> headers (res (snd (handle_request sample_env
      \<lparr> req_endpoint = YoutubeDownload,
        req_body = sample_body (Str ''https://www.youtube.com/watch?v=jNQXAC9IVRw'') \<rparr>)))
     = [(''Content-Disposition'',
         ''attachment; filename='' @ [CHR 0x22] @ ''Me at the zoo part 12.mp4'' @ [CHR 0x22]),
        (''Content-Type'', ''video/mp4'')]"
proof -
  let ?rq = "\<lparr> req_endpoint = YoutubeDownload,
               req_body = sample_body (Str ''https://www.youtube.com/watch?v=jNQXAC9IVRw'') \<rparr>"
  have ok: "statusCode (res (snd (handle_request sample_env ?rq))) = 200"
    by (simp add: start_defs yt_download_def yt_download_try_def action_defs sample_env_def
        sample_info_def sample_body_def run_stream_eq Let_def sanitize_title_filter
        content_disposition_def is_word_def is_space_def valid_header_char_def set_header_def
        js_or_def)
  have info: "getInfo sample_env (body_url (sample_body (Str ''https://www.youtube.com/watch?v=jNQXAC9IVRw'')))
      = Inr sample_info"
    by (simp add: sample_env_def)
  have t: "filter (\<lambda>c. is_word c \<or> is_space c) (title sample_info) = ''Me at the zoo part 12''"
    by (simp add: sample_info_def is_word_def is_space_def)
  from yt_download_success_headers
    [of sample_env "sample_body (Str ''https://www.youtube.com/watch?v=jNQXAC9IVRw'')"
        "fst (handle_request sample_env ?rq)" "snd (handle_request sample_env ?rq)"] ok info t
  show ?thesis by auto
qed

subsection \<open>Errors on the download routes\<close>

text \<open>
  C4. On both download routes no JSON error body is written once the head of the
  response has been sent. On the YouTube route both error paths, the listener of the
  stream's \<open>error\<close> event and the \<open>catch\<close> block, test \<open>headersSent\<close> and leave a
  response alone whose head has been sent. On the Instagram route the \<open>try\<close> block
  sends nothing before its final \<open>res.send\<close>, so whenever it throws the head is unsent
  and the \<open>catch\<close> block writes its 500 response to an unsent head. On both routes a
  request never ends in an error thrown out of the handler (Node's refusal to write a
  head twice never occurs), and a JSON body, when one is written, is all that is
  written: it never follows streamed data.
\<close>

theorem download_error_handlers:
  "(headersSent (res w) \<longrightarrow>
      yt_stream_on_error error w = (Inr (), w) \<and> yt_download_catch error w = (Inr (), w))
   \<and> (\<forall>thrown w'. ig_download_try e b new_world = (Inl thrown, w') \<longrightarrow>
          \<not> headersSent (res w'))
   \<and> fst (handle_request e \<lparr> req_endpoint = YoutubeDownload, req_body = b \<rparr>) = Inr ()
   \<and> fst (handle_request e \<lparr> req_endpoint = InstagramDownload, req_body = b \<rparr>) = Inr ()
   \<and> (\<forall>j. Json j \<in> set (body (res (snd (handle_request e
              \<lparr> req_endpoint = YoutubeDownload, req_body = b \<rparr>)))) \<longrightarrow>
          body (res (snd (handle_request e
              \<lparr> req_endpoint = YoutubeDownload, req_body = b \<rparr>))) = [Json j])
   \<and> (\<forall>j. Json j \<in> set (body (res (snd (handle_request e
              \<lparr> req_endpoint = InstagramDownload, req_body = b \<rparr>)))) \<longrightarrow>
          body (res (snd (handle_request e
              \<lparr> req_endpoint = InstagramDownload, req_body = b \<rparr>))) = [Json j])"
proof (intro conjI)
  show "headersSent (res w) \<longrightarrow>
      yt_stream_on_error error w = (Inr (), w) \<and> yt_download_catch error w = (Inr (), w)"
    by (simp add: yt_stream_on_error_def yt_download_catch_def)
  show "\<forall>thrown w'. ig_download_try e b new_world = (Inl thrown, w') \<longrightarrow>
          \<not> headersSent (res w')"
    by (auto simp: ig_download_try_def action_defs new_world_def new_response_def Let_def
        valid_header_char_def split: if_splits sum.splits prod.splits)
  show "fst (handle_request e \<lparr> req_endpoint = YoutubeDownload, req_body = b \<rparr>) = Inr ()"
    using yt_download_cases[of e b] by (auto simp: run_stream_eq)
  show "\<forall>j. Json j \<in> set (body (res (snd (handle_request e
              \<lparr> req_endpoint = YoutubeDownload, req_body = b \<rparr>)))) \<longrightarrow>
          body (res (snd (handle_request e
              \<lparr> req_endpoint = YoutubeDownload, req_body = b \<rparr>))) = [Json j]"
    using yt_download_cases[of e b]
    by (auto simp: run_stream_eq split: if_splits option.splits)
  have ig: "(\<exists>j st hs cs. handle_request e \<lparr> req_endpoint = InstagramDownload, req_body = b \<rparr>
          = (Inr (), \<lparr> res = \<lparr> statusCode = st, headers = hs, headersSent = True,
                               body = [Json j], ended = True \<rparr>, calls = cs \<rparr>))
     \<or> (\<exists>buf st hs cs. handle_request e \<lparr> req_endpoint = InstagramDownload, req_body = b \<rparr>
          = (Inr (), \<lparr> res = \<lparr> statusCode = st, headers = hs, headersSent = True,
                               body = [Buffer buf], ended = True \<rparr>, calls = cs \<rparr>))"
  proof (cases "truthy (body_qualityUrl b)")
    case False
    then show ?thesis
      by (simp add: start_defs ig_download_def ig_download_try_def action_defs)
  next
    case q: True
    show ?thesis
    proof (cases "fetch e (body_qualityUrl b)")
      case (Inl error)
      with q show ?thesis
        by (simp add: start_defs ig_download_def ig_download_try_def ig_download_catch_def action_defs)
    next
      case (Inr response)
      show ?thesis
      proof (cases "arrayBuffer response")
        case (Inl error)
        with q Inr show ?thesis
          by (simp add: start_defs ig_download_def ig_download_try_def ig_download_catch_def action_defs)
      next
        case buf: (Inr buffer)
        with q Inr show ?thesis
          by (simp add: start_defs ig_download_def ig_download_try_def ig_download_catch_def action_defs
              valid_header_char_def set_header_def)
      qed
    qed
  qed
  show "fst (handle_request e \<lparr> req_endpoint = InstagramDownload, req_body = b \<rparr>) = Inr ()"
    using ig by auto
  show "\<forall>j. Json j \<in> set (body (res (snd (handle_request e
              \<lparr> req_endpoint = InstagramDownload, req_body = b \<rparr>)))) \<longrightarrow>
          body (res (snd (handle_request e
              \<lparr> req_endpoint = InstagramDownload, req_body = b \<rparr>))) = [Json j]"
    using ig by auto
qed

theorem download_error_handlers_witness:
  "headersSent (res streaming_world)
   \<and> yt_stream_on_error (JsError (Str ''aborted'')) streaming_world = (Inr (), streaming_world)
   \<and> yt_download_catch (JsError (Str ''aborted'')) streaming_world = (Inr (), streaming_world)
   \<and> Json (Obj [(''error'', Str ''Failed to download video''),
                  (''details'', Str ''Video unavailable'')])
       \<in> set (body (res (snd (handle_request failing_env
            \<lparr> req_endpoint = YoutubeDownload,
              req_body = sample_body (Str ''https://www.youtube.com/watch?v=jNQXAC9IVRw'') \<rparr>))))
   \<and> body (res (snd (handle_request failing_env
            \<lparr> req_endpoint = YoutubeDownload,
              req_body = sample_body (Str ''https://www.youtube.com/watch?v=jNQXAC9IVRw'') \<rparr>)))
       = [Json (Obj [(''error'', Str ''Failed to download video''),
                     (''details'', Str ''Video unavailable'')])]"
proof -
  let ?rq = "\<lparr> req_endpoint = YoutubeDownload,
               req_body = sample_body (Str ''https://www.youtube.com/watch?v=jNQXAC9IVRw'') \<rparr>"
  let ?j = "Obj [(''error'', Str ''Failed to download video''),
                 (''details'', Str ''Video unavailable'')]"
  have sent: "headersSent (res streaming_world)"
    by (simp add: streaming_world_def)
  have mem: "Json ?j \<in> set (body (res (snd (handle_request failing_env ?rq))))"
    by (simp add: start_defs yt_download_def yt_download_try_def yt_download_catch_def action_defs
        failing_env_def sample_env_def sample_body_def)
  from download_error_handlers
    [where w = streaming_world and error = "JsError (Str ''aborted'')" and e = failing_env
       and b = "sample_body (Str ''https://www.youtube.com/watch?v=jNQXAC9IVRw'')"] sent mem
  show ?thesis by blast
qed

end
